theory Spec2Isabelle
  imports Main "HOL-Library.Word"
begin

section \<open>Data model\<close>

text \<open>
  The two contracts, \<open>ContractCaller\<close> (the spec's Relay) and \<open>ReceiverContract\<close>
  (the spec's Ledger), are Solidity \<open>^0.8.19\<close>. An \<open>address\<close> is a 160-bit word and a
  \<open>uint256\<close> a 256-bit word. Arithmetic on \<open>uint256\<close> is checked: an addition or
  subtraction that leaves the range reverts with \<open>Panic(0x11)\<close>.
\<close>

type_synonym address = "160 word"
type_synonym uint256 = "256 word"

text \<open>The events the two contracts declare, with their arguments in declaration order.\<close>

datatype event =
    ContractCallMade address address uint256
  | InternalTransfer address address uint256
  | FundsReceived address uint256
  | InternalTransferExecuted address address uint256
  | BalanceUpdated address uint256

text \<open>
  How a call ends when it does not succeed: \<open>Error s\<close> is a failed
  \<open>require(cond, s)\<close>, \<open>Panic c\<close> a failed checked operation, and \<open>Revert\<close> a revert
  that carries no reason (a value transfer that cannot be made or is refused).
\<close>

datatype error = Error string | Panic nat | Revert

text \<open>The storage of \<open>ReceiverContract\<close>; a Solidity mapping is total, every key starts at 0.\<close>

record ReceiverContract =
  owner :: address
  totalReceived :: uint256
  balances :: "address \<Rightarrow> uint256"

text \<open>The storage of \<open>ContractCaller\<close>.\<close>

record ContractCaller =
  receiverContract :: address
  totalTransfers :: uint256

text \<open>
  The world the contracts run in: the native-currency balance of every account
  (\<open>address(x).balance\<close>, a natural number: the currency's supply is far below
  \<open>2 ^ 256\<close>, so crediting an account never wraps), the storage of the two contracts, and
  the event log in emission order.
\<close>

record world =
  eth :: "address \<Rightarrow> nat"
  receiver :: ReceiverContract
  caller :: ContractCaller
  logs :: "event list"

text \<open>
  What does not change while the contracts run: the addresses at which the two contracts
  are deployed, and the code of every account that is neither of them, seen through a
  call with empty calldata.
  \<^item> \<open>accepts r\<close>: whether \<open>r\<close> takes such a call made with all remaining gas
    (\<open>recipient.call\<close>) at all; an account that does not refuses it.
  \<^item> \<open>reaction r s v w\<close>: what the code of an accepting \<open>r\<close> does with that gas once
    the value \<open>v\<close> sent by \<open>s\<close> has reached it in world \<open>w\<close>. It is any function of the
    world: the code may call back into either contract, there is no reentrancy guard.
    \<open>None\<close> is a revert, which fails the call.
  \<^item> \<open>acceptsStipend r\<close>: whether \<open>r\<close> takes a call made with the 2300 gas stipend
    (\<open>transfer\<close>), which pays for no storage write and no further call that writes.
\<close>

record env =
  receiverAddr :: address
  callerAddr :: address
  accepts :: "address \<Rightarrow> bool"
  reaction :: "address \<Rightarrow> address \<Rightarrow> uint256 \<Rightarrow> world \<Rightarrow> world option"
  acceptsStipend :: "address \<Rightarrow> bool"

text \<open>The code of an account that does nothing on receipt: no code at all, or an empty
  \<open>receive()\<close>.\<close>

definition inert :: "address \<Rightarrow> uint256 \<Rightarrow> world \<Rightarrow> world option" where
  "inert s v w = Some w"

section \<open>Primitives of the execution environment\<close>

definition checked_add :: "uint256 \<Rightarrow> uint256 \<Rightarrow> error + uint256" where
  "checked_add a b = (if unat a + unat b < 2 ^ 256 then Inr (a + b) else Inl (Panic 17))"

definition checked_sub :: "uint256 \<Rightarrow> uint256 \<Rightarrow> error + uint256" where
  "checked_sub a b = (if unat b \<le> unat a then Inr (a - b) else Inl (Panic 17))"

definition emit :: "event \<Rightarrow> world \<Rightarrow> world" where
  "emit e w = w\<lparr>logs := logs w @ [e]\<rparr>"

text \<open>Moving \<open>v\<close> units of native currency; debit first, so that a self-transfer changes nothing.\<close>

definition move :: "address \<Rightarrow> address \<Rightarrow> nat \<Rightarrow> world \<Rightarrow> world" where
  "move src dst v w =
     (let e1 = (eth w)(src := eth w src - v);
          e2 = e1(dst := e1 dst + v)
      in w\<lparr>eth := e2\<rparr>)"

text \<open>
  The value part of a message call: \<open>msg.value\<close> moves from the caller to the callee
  before the callee's code runs, and the call fails when the caller does not hold it.
\<close>

definition pay :: "address \<Rightarrow> address \<Rightarrow> uint256 \<Rightarrow> world \<Rightarrow> error + world" where
  "pay src dst v w = (if eth w src < unat v then Inl Revert else Inr (move src dst (unat v) w))"

text \<open>
  A whole operation: it commits the world it reaches or, when it fails, leaves the world
  it started from and reports the error.
\<close>

definition transact :: "(world \<Rightarrow> error + world) \<Rightarrow> world \<Rightarrow> error option \<times> world" where
  "transact f w = (case f w of Inl e \<Rightarrow> (Some e, w) | Inr w' \<Rightarrow> (None, w'))"

section \<open>ReceiverContract\<close>

definition ReceiverContract_constructor :: "address \<Rightarrow> ReceiverContract" where
  "ReceiverContract_constructor msg_sender =
     \<lparr>owner = msg_sender, totalReceived = 0, balances = (\<lambda>_. 0)\<rparr>"

text \<open>The two storage writes \<open>balances[msg.sender] += msg.value; totalReceived += msg.value\<close>
  and the two events that \<open>receiveFunds\<close> and \<open>receive\<close> share.\<close>

definition credit :: "address \<Rightarrow> uint256 \<Rightarrow> world \<Rightarrow> error + world" where
  "credit msg_sender msg_value w =
     (case checked_add (balances (receiver w) msg_sender) msg_value of
        Inl e \<Rightarrow> Inl e
      | Inr b \<Rightarrow>
          let w1 = w\<lparr>receiver := (receiver w)\<lparr>balances := (balances (receiver w))(msg_sender := b)\<rparr>\<rparr>
          in (case checked_add (totalReceived (receiver w1)) msg_value of
                Inl e \<Rightarrow> Inl e
              | Inr t \<Rightarrow>
                  let w2 = w1\<lparr>receiver := (receiver w1)\<lparr>totalReceived := t\<rparr>\<rparr>;
                      w3 = emit (FundsReceived msg_sender msg_value) w2
                  in Inr (emit (BalanceUpdated msg_sender (balances (receiver w3) msg_sender)) w3)))"

definition receiveFunds :: "env \<Rightarrow> address \<Rightarrow> uint256 \<Rightarrow> world \<Rightarrow> error + world" where
  "receiveFunds en msg_sender msg_value w =
     (case pay msg_sender (receiverAddr en) msg_value w of
        Inl e \<Rightarrow> Inl e
      | Inr w0 \<Rightarrow>
          if \<not> msg_value > 0 then Inl (Error ''No funds sent'')
          else credit msg_sender msg_value w0)"

definition ReceiverContract_receive :: "env \<Rightarrow> address \<Rightarrow> uint256 \<Rightarrow> world \<Rightarrow> error + world" where
  "ReceiverContract_receive en msg_sender msg_value w =
     (case pay msg_sender (receiverAddr en) msg_value w of
        Inl e \<Rightarrow> Inl e
      | Inr w0 \<Rightarrow> credit msg_sender msg_value w0)"

text \<open>
  \<open>recipient.call{value: v}("")\<close> made by the contract at \<open>src\<close>: a call with empty
  calldata. At \<open>ReceiverContract\<close>'s own address it runs \<open>receive()\<close> above with the
  contract as \<open>msg.sender\<close>; at \<open>ContractCaller\<close>'s address it runs that contract's empty
  \<open>receive() external payable {}\<close>; any other account refuses, or receives the value
  and runs its own code in the world the caller has reached. The call returns a success
  flag, and a failed call leaves the world as it was.
\<close>

definition call_empty :: "env \<Rightarrow> address \<Rightarrow> address \<Rightarrow> uint256 \<Rightarrow> world \<Rightarrow> bool \<times> world" where
  "call_empty en src recipient v w =
     (if recipient = receiverAddr en then
        (case ReceiverContract_receive en src v w of
           Inl e \<Rightarrow> (False, w)
         | Inr w' \<Rightarrow> (True, w'))
      else if recipient = callerAddr en then
        (case pay src recipient v w of
           Inl e \<Rightarrow> (False, w)
         | Inr w' \<Rightarrow> (True, w'))
      else if accepts en recipient then
        (case pay src recipient v w of
           Inl e \<Rightarrow> (False, w)
         | Inr w1 \<Rightarrow>
             (case reaction en recipient src v w1 of
                None \<Rightarrow> (False, w)
              | Some w' \<Rightarrow> (True, w')))
      else (False, w))"

definition transferTo :: "env \<Rightarrow> address \<Rightarrow> address \<Rightarrow> uint256 \<Rightarrow> world \<Rightarrow> error + world" where
  "transferTo en msg_sender recipient amount w =
     (if \<not> balances (receiver w) msg_sender \<ge> amount then Inl (Error ''Insufficient balance'')
      else
        (case checked_sub (balances (receiver w) msg_sender) amount of
           Inl e \<Rightarrow> Inl e
         | Inr b1 \<Rightarrow>
             let w1 = w\<lparr>receiver := (receiver w)\<lparr>balances := (balances (receiver w))(msg_sender := b1)\<rparr>\<rparr>
             in (case checked_add (balances (receiver w1) recipient) amount of
                   Inl e \<Rightarrow> Inl e
                 | Inr b2 \<Rightarrow>
                     let w2 = w1\<lparr>receiver := (receiver w1)\<lparr>balances := (balances (receiver w1))(recipient := b2)\<rparr>\<rparr>;
                         (success, w3) = call_empty en (receiverAddr en) recipient 0 w2
                     in if \<not> success then Inl (Error ''Transfer failed'')
                        else
                          let w4 = emit (InternalTransferExecuted msg_sender recipient amount) w3;
                              w5 = emit (BalanceUpdated msg_sender (balances (receiver w4) msg_sender)) w4
                          in Inr (emit (BalanceUpdated recipient (balances (receiver w5) recipient)) w5))))"


definition getBalance :: "env \<Rightarrow> world \<Rightarrow> nat" where
  "getBalance en w = eth w (receiverAddr en)"

definition getUserBalance :: "address \<Rightarrow> world \<Rightarrow> uint256" where
  "getUserBalance user w = balances (receiver w) user"

text \<open>
  \<open>payable(owner).transfer(amount)\<close>: a call with empty calldata and the 2300 gas
  stipend that reverts when it fails. It fails when the contract holds less than
  \<open>amount\<close>. \<open>ReceiverContract\<close>'s own \<open>receive()\<close> writes storage, which the stipend does
  not pay for; \<open>ContractCaller\<close>'s empty \<open>receive()\<close> runs within it.
\<close>

definition transfer :: "env \<Rightarrow> address \<Rightarrow> address \<Rightarrow> uint256 \<Rightarrow> world \<Rightarrow> error + world" where
  "transfer en src recipient amount w =
     (if eth w src < unat amount then Inl Revert
      else if recipient = receiverAddr en then Inl Revert
      else if recipient = callerAddr en \<or> acceptsStipend en recipient
        then Inr (move src recipient (unat amount) w)
      else Inl Revert)"

definition withdraw :: "env \<Rightarrow> address \<Rightarrow> uint256 \<Rightarrow> world \<Rightarrow> error + world" where
  "withdraw en msg_sender amount w =
     (if \<not> msg_sender = owner (receiver w) then Inl (Error ''Only owner can withdraw'')
      else transfer en (receiverAddr en) (owner (receiver w)) amount w)"

section \<open>ContractCaller\<close>

definition ContractCaller_constructor :: "address \<Rightarrow> ContractCaller" where
  "ContractCaller_constructor receiverAddress =
     \<lparr>receiverContract = receiverAddress, totalTransfers = 0\<rparr>"

text \<open>
  \<open>IReceiver(receiverContract).receiveFunds{value: msg.value}()\<close>: a high-level call,
  whose failure is the caller's failure with the same error. It reaches
  \<open>ReceiverContract\<close> when the stored address is that contract's; at any other address
  there is no \<open>receiveFunds\<close> of this repository to run and the call reverts.
\<close>

definition IReceiver_receiveFunds ::
  "env \<Rightarrow> address \<Rightarrow> address \<Rightarrow> uint256 \<Rightarrow> world \<Rightarrow> error + world" where
  "IReceiver_receiveFunds en target src v w =
     (if target = receiverAddr en then receiveFunds en src v w else Inl Revert)"

definition callReceiverContract :: "env \<Rightarrow> address \<Rightarrow> uint256 \<Rightarrow> world \<Rightarrow> error + world" where
  "callReceiverContract en msg_sender msg_value w =
     (case pay msg_sender (callerAddr en) msg_value w of
        Inl e \<Rightarrow> Inl e
      | Inr w0 \<Rightarrow>
          if \<not> msg_value > 0 then Inl (Error ''Must send some ETH'')
          else
            (case IReceiver_receiveFunds en (receiverContract (caller w0)) (callerAddr en) msg_value w0 of
               Inl e \<Rightarrow> Inl e
             | Inr w1 \<Rightarrow>
                 (case checked_add (totalTransfers (caller w1)) 1 of
                    Inl e \<Rightarrow> Inl e
                  | Inr n \<Rightarrow>
                      let w2 = w1\<lparr>caller := (caller w1)\<lparr>totalTransfers := n\<rparr>\<rparr>
                      in Inr (emit (ContractCallMade msg_sender (receiverContract (caller w2)) msg_value) w2))))"

section \<open>Sequences of deposits\<close>

text \<open>A deposit reaches \<open>ReceiverContract\<close> through \<open>receiveFunds()\<close> or, with empty
  calldata, through \<open>receive()\<close>; each carries its sender and its value.\<close>

datatype deposit = ViaReceiveFunds address uint256 | ViaReceive address uint256

fun depositor :: "deposit \<Rightarrow> address" where
  "depositor (ViaReceiveFunds a v) = a"
| "depositor (ViaReceive a v) = a"

fun run_deposit :: "env \<Rightarrow> deposit \<Rightarrow> world \<Rightarrow> error + world" where
  "run_deposit en (ViaReceiveFunds a v) w = receiveFunds en a v w"
| "run_deposit en (ViaReceive a v) w = ReceiverContract_receive en a v w"

fun run_deposits :: "env \<Rightarrow> deposit list \<Rightarrow> world \<Rightarrow> world" where
  "run_deposits en [] w = w"
| "run_deposits en (d # ds) w = run_deposits en ds (snd (transact (run_deposit en d) w))"

text \<open>The sum of all per-account ledger balances.\<close>

definition ledgerSum :: "world \<Rightarrow> nat" where
  "ledgerSum w = (\<Sum>a\<in>UNIV. unat (balances (receiver w) a))"

section \<open>The order of steps the specification describes\<close>

text \<open>
  The specification's design notes give the internal transfer the order "check, then
  mutate state, then emit", where the check is the zero-value probe of the recipient.
  \<open>transferTo_probe_first\<close> is that order written out, to be compared with
  \<open>transferTo\<close>: the same guard, the probe, then the two storage writes, then the events.
\<close>

definition transferTo_probe_first ::
  "env \<Rightarrow> address \<Rightarrow> address \<Rightarrow> uint256 \<Rightarrow> world \<Rightarrow> error + world" where
  "transferTo_probe_first en msg_sender recipient amount w =
     (if \<not> balances (receiver w) msg_sender \<ge> amount then Inl (Error ''Insufficient balance'')
      else
        let (success, w1) = call_empty en (receiverAddr en) recipient 0 w
        in if \<not> success then Inl (Error ''Transfer failed'')
           else
             (case checked_sub (balances (receiver w1) msg_sender) amount of
                Inl e \<Rightarrow> Inl e
              | Inr b1 \<Rightarrow>
                  let w2 = w1\<lparr>receiver := (receiver w1)\<lparr>balances := (balances (receiver w1))(msg_sender := b1)\<rparr>\<rparr>
                  in (case checked_add (balances (receiver w2) recipient) amount of
                        Inl e \<Rightarrow> Inl e
                      | Inr b2 \<Rightarrow>
                          let w3 = w2\<lparr>receiver := (receiver w2)\<lparr>balances := (balances (receiver w2))(recipient := b2)\<rparr>\<rparr>;
                              w4 = emit (InternalTransferExecuted msg_sender recipient amount) w3;
                              w5 = emit (BalanceUpdated msg_sender (balances (receiver w4) msg_sender)) w4
                          in Inr (emit (BalanceUpdated recipient (balances (receiver w5) recipient)) w5))))"

text \<open>
  The two ends of \<open>transferTo\<close> on their own: the guard with the two storage writes (the
  statements before the probe), and the three events (the statements after it).
\<close>

definition transferTo_writes :: "address \<Rightarrow> address \<Rightarrow> uint256 \<Rightarrow> world \<Rightarrow> error + world" where
  "transferTo_writes msg_sender recipient amount w =
     (if \<not> balances (receiver w) msg_sender \<ge> amount then Inl (Error ''Insufficient balance'')
      else
        (case checked_sub (balances (receiver w) msg_sender) amount of
           Inl e \<Rightarrow> Inl e
         | Inr b1 \<Rightarrow>
             let w1 = w\<lparr>receiver := (receiver w)\<lparr>balances := (balances (receiver w))(msg_sender := b1)\<rparr>\<rparr>
             in (case checked_add (balances (receiver w1) recipient) amount of
                   Inl e \<Rightarrow> Inl e
                 | Inr b2 \<Rightarrow>
                     Inr (w1\<lparr>receiver := (receiver w1)\<lparr>balances := (balances (receiver w1))(recipient := b2)\<rparr>\<rparr>))))"

definition transferTo_events :: "address \<Rightarrow> address \<Rightarrow> uint256 \<Rightarrow> world \<Rightarrow> world" where
  "transferTo_events msg_sender recipient amount w =
     (let w4 = emit (InternalTransferExecuted msg_sender recipient amount) w;
          w5 = emit (BalanceUpdated msg_sender (balances (receiver w4) msg_sender)) w4
      in emit (BalanceUpdated recipient (balances (receiver w5) recipient)) w5)"

section \<open>Observing an operation\<close>

text \<open>The events an operation appends to the log when it succeeds.\<close>

definition emitted :: "(world \<Rightarrow> error + world) \<Rightarrow> world \<Rightarrow> event list option" where
  "emitted f w = (case f w of Inl e \<Rightarrow> None | Inr w' \<Rightarrow> Some (drop (length (logs w)) (logs w')))"



section \<open>A concrete deployment\<close>

text \<open>
  The deployment the script makes: account 1 deploys \<open>ReceiverContract\<close> (here at
  address 100) and then \<open>ContractCaller\<close> (at 200) with the first contract's address.
  Account 66 refuses every call; every other outside account accepts and does nothing
  on receipt. Outside accounts hold 1000 units each, the two contracts none.
\<close>

definition example_env :: env where
  "example_env =
     \<lparr>receiverAddr = 100, callerAddr = 200,
      accepts = (\<lambda>a. a \<noteq> 66), reaction = (\<lambda>a. inert),
      acceptsStipend = (\<lambda>a. a \<noteq> 66)\<rparr>"


definition deployed :: world where
  "deployed =
     \<lparr>eth = (\<lambda>_. 1000)(100 := 0, 200 := 0),
      receiver = ReceiverContract_constructor 1,
      caller = ContractCaller_constructor 100,
      logs = []\<rparr>"

text \<open>The same deployment after account 7 has deposited 100 through \<open>receiveFunds\<close>.\<close>

definition funded :: world where
  "funded =
     \<lparr>eth = (\<lambda>_. 1000)(100 := 100, 200 := 0, 7 := 900),
      receiver = \<lparr>owner = 1, totalReceived = 100, balances = (\<lambda>_. 0)(7 := 100)\<rparr>,
      caller = ContractCaller_constructor 100,
      logs = [FundsReceived 7 100, BalanceUpdated 7 100]\<rparr>"

text \<open>The deployment with a \<open>ContractCaller\<close> that was constructed with address 55, where
  no \<open>ReceiverContract\<close> lives.\<close>

definition misdirected :: world where
  "misdirected = deployed\<lparr>caller := ContractCaller_constructor 55\<rparr>"

section \<open>Facts about the primitives\<close>

lemma unat_uint256_bound: "unat (a::uint256) < 2 ^ 256"
  using unsigned_less [of a] by simp

lemma checked_add_zero: "checked_add a 0 = Inr a"
  using unat_uint256_bound [of a] by (simp add: checked_add_def)

lemma checked_add_ok: "unat a + unat b < 2 ^ 256 \<Longrightarrow> checked_add a b = Inr (a + b)"
  by (simp add: checked_add_def)

lemma unat_add_ok: "unat (a::uint256) + unat b < 2 ^ 256 \<Longrightarrow> unat (a + b) = unat a + unat b"
  using unat_add_lem [of a b] by simp

lemma checked_add_Inr:
  "checked_add a b = Inr c \<Longrightarrow> c = a + b \<and> unat c = unat a + unat b"
  by (auto simp: checked_add_def unat_add_ok split: if_splits)

lemma pay_zero: "pay src dst 0 w = Inr w"
  by (simp add: pay_def move_def)

lemma pay_ok: "unat v \<le> eth w src \<Longrightarrow> pay src dst v w = Inr (move src dst (unat v) w)"
  by (simp add: pay_def)

lemma pay_Inr:
  assumes "pay src dst v w = Inr w0"
  shows "receiver w0 = receiver w" and "caller w0 = caller w" and "logs w0 = logs w"
    and "unat v \<le> eth w src"
    and "src \<noteq> dst \<Longrightarrow> eth w0 dst = eth w dst + unat v"
    and "src \<noteq> dst \<Longrightarrow> eth w0 src = eth w src - unat v"
    and "src = dst \<Longrightarrow> eth w0 = eth w"
    and "x \<noteq> src \<Longrightarrow> x \<noteq> dst \<Longrightarrow> eth w0 x = eth w x"
  using assms by (auto simp: pay_def move_def Let_def split: if_splits)

text \<open>Writing one entry of the mapping changes the sum of all entries by that entry's change.\<close>

lemma sum_balances_upd:
  fixes f :: "address \<Rightarrow> uint256"
  shows "(\<Sum>a\<in>UNIV. unat ((f(x := b)) a)) + unat (f x) = (\<Sum>a\<in>UNIV. unat (f a)) + unat b"
proof -
  have rest: "(\<Sum>a\<in>UNIV - {x}. unat ((f(x := b)) a)) = (\<Sum>a\<in>UNIV - {x}. unat (f a))"
    by (rule sum.cong) auto
  have "(\<Sum>a\<in>UNIV. unat ((f(x := b)) a)) = unat b + (\<Sum>a\<in>UNIV - {x}. unat ((f(x := b)) a))"
    using sum.remove [of UNIV x "\<lambda>a. unat ((f(x := b)) a)"] by simp
  moreover have "(\<Sum>a\<in>UNIV. unat (f a)) = unat (f x) + (\<Sum>a\<in>UNIV - {x}. unat (f a))"
    using sum.remove [of UNIV x "\<lambda>a. unat (f a)"] by simp
  ultimately show ?thesis using rest by simp
qed

lemma credit_zero:
  "credit a 0 w =
     Inr (emit (BalanceUpdated a (balances (receiver w) a)) (emit (FundsReceived a 0) w))"
  by (simp add: credit_def checked_add_zero emit_def)

lemma credit_Inr:
  assumes "credit a v w = Inr w'"
  shows "eth w' = eth w" and "caller w' = caller w"
    and "owner (receiver w') = owner (receiver w)"
    and "balances (receiver w') = (balances (receiver w))(a := balances (receiver w) a + v)"
    and "unat (balances (receiver w') a) = unat (balances (receiver w) a) + unat v"
    and "totalReceived (receiver w') = totalReceived (receiver w) + v"
    and "unat (totalReceived (receiver w')) = unat (totalReceived (receiver w)) + unat v"
    and "logs w' = logs w @ [FundsReceived a v, BalanceUpdated a (balances (receiver w) a + v)]"
  using assms
  by (auto simp: credit_def Let_def emit_def split: sum.splits dest!: checked_add_Inr)

lemma credit_ok:
  assumes "unat (balances (receiver w) a) + unat v < 2 ^ 256"
    and "unat (totalReceived (receiver w)) + unat v < 2 ^ 256"
  shows "\<exists>w'. credit a v w = Inr w'"
  using assms by (simp add: credit_def checked_add_ok Let_def)

lemma credit_ledgerSum:
  assumes "credit a v w = Inr w'"
  shows "ledgerSum w' = ledgerSum w + unat v"
proof -
  have "ledgerSum w' + unat (balances (receiver w) a)
      = ledgerSum w + unat (balances (receiver w) a + v)"
    unfolding ledgerSum_def credit_Inr(4) [OF assms] by (rule sum_balances_upd)
  moreover have "unat (balances (receiver w) a + v) = unat (balances (receiver w) a) + unat v"
    using credit_Inr(4,5) [OF assms] by simp
  ultimately show ?thesis by simp
qed

lemma move_fields:
  "receiver (move s d v w) = receiver w" "caller (move s d v w) = caller w"
  "logs (move s d v w) = logs w"
  "s \<noteq> d \<Longrightarrow> eth (move s d v w) d = eth w d + v"
  "s \<noteq> d \<Longrightarrow> eth (move s d v w) s = eth w s - v"
  "x \<noteq> s \<Longrightarrow> x \<noteq> d \<Longrightarrow> eth (move s d v w) x = eth w x"
  by (simp_all add: move_def Let_def)

lemma checked_sub_ok: "b \<le> a \<Longrightarrow> checked_sub a b = Inr (a - b)"
  by (simp add: checked_sub_def word_le_nat_alt)

lemma unat_sub_ok: "(b::uint256) \<le> a \<Longrightarrow> unat (a - b) = unat a - unat b"
  by (simp add: unat_sub)

lemma receiveFunds_ok:
  assumes "0 < n" and "unat n \<le> eth w a"
    and "unat (balances (receiver w) a) + unat n < 2 ^ 256"
    and "unat (totalReceived (receiver w)) + unat n < 2 ^ 256"
  obtains w' where "receiveFunds en a n w = Inr w'"
    and "credit a n (move a (receiverAddr en) (unat n) w) = Inr w'"
proof -
  let ?w0 = "move a (receiverAddr en) (unat n) w"
  have r: "receiver ?w0 = receiver w" by (simp add: move_def Let_def)
  obtain w' where c: "credit a n ?w0 = Inr w'"
    using credit_ok [of ?w0 a n] assms(3,4) r by auto
  have "receiveFunds en a n w = Inr w'"
    using assms(1,2) c by (simp add: receiveFunds_def pay_ok)
  then show ?thesis using c that by blast
qed

text \<open>The probe, and the call that carries value, at each kind of recipient.\<close>

lemma call_empty_zero_self:
  "call_empty en src (receiverAddr en) 0 w =
     (True, emit (BalanceUpdated src (balances (receiver w) src)) (emit (FundsReceived src 0) w))"
  by (simp add: call_empty_def ReceiverContract_receive_def pay_zero credit_zero)

lemma call_empty_zero_other:
  "b \<noteq> receiverAddr en \<Longrightarrow> b = callerAddr en \<or> \<not> accepts en b \<or> reaction en b = inert \<Longrightarrow>
   call_empty en src b 0 w = (b = callerAddr en \<or> accepts en b, w)"
  by (auto simp: call_empty_def pay_zero inert_def)



text \<open>\<open>transferTo\<close> once its guard has passed, case by case, at a recipient whose code
  is known: the contract itself, \<open>ContractCaller\<close>, an account that refuses, or one that
  does nothing on receipt.\<close>

lemma transferTo_unfold:
  assumes "amt \<le> balances (receiver w) a"
    and "b = receiverAddr en \<or> b = callerAddr en \<or> \<not> accepts en b \<or> reaction en b = inert"
  shows "transferTo en a b amt w =
     (let B1 = (balances (receiver w))(a := balances (receiver w) a - amt)
      in if \<not> unat (B1 b) + unat amt < 2 ^ 256 then Inl (Panic 17)
         else
           let w2 = w\<lparr>receiver := (receiver w)\<lparr>balances := B1(b := B1 b + amt)\<rparr>\<rparr>
           in if b = receiverAddr en then
                Inr (emit (BalanceUpdated b (B1 b + amt))
                  (emit (BalanceUpdated a ((B1(b := B1 b + amt)) a))
                    (emit (InternalTransferExecuted a b amt)
                      (emit (BalanceUpdated b (B1 b + amt))
                        (emit (FundsReceived b 0) w2)))))
              else if b = callerAddr en \<or> accepts en b then
                Inr (emit (BalanceUpdated b (B1 b + amt))
                  (emit (BalanceUpdated a ((B1(b := B1 b + amt)) a))
                    (emit (InternalTransferExecuted a b amt) w2)))
              else Inl (Error ''Transfer failed''))"
proof (cases "b = receiverAddr en")
  case True
  then show ?thesis using assms(1)
    by (simp add: transferTo_def checked_sub_ok checked_add_def Let_def
        call_empty_zero_self emit_def)
next
  case False
  then have "b = callerAddr en \<or> \<not> accepts en b \<or> reaction en b = inert"
    using assms(2) by simp
  then show ?thesis using assms(1) False
    by (simp add: transferTo_def checked_sub_ok checked_add_def Let_def
        call_empty_zero_other emit_def)
qed



lemma transferTo_order:
  "transferTo en a b amt w =
     (case transferTo_writes a b amt w of
        Inl e \<Rightarrow> Inl e
      | Inr w2 \<Rightarrow>
          let (success, w3) = call_empty en (receiverAddr en) b 0 w2
          in if \<not> success then Inl (Error ''Transfer failed'')
             else Inr (transferTo_events a b amt w3))"
  by (simp add: transferTo_def transferTo_writes_def transferTo_events_def Let_def
      split: sum.splits prod.splits)


lemma funded_transfer_self:
  "transferTo example_env 7 100 40 funded =
     Inr (funded\<lparr>receiver := (receiver funded)\<lparr>balances := (\<lambda>_. 0)(7 := 60, 100 := 40)\<rparr>,
                 logs := logs funded @ [FundsReceived 100 0, BalanceUpdated 100 40,
                                        InternalTransferExecuted 7 100 40, BalanceUpdated 7 60,
                                        BalanceUpdated 100 40]\<rparr>)"
proof -
  have le: "(40::uint256) \<le> balances (receiver funded) 7" by (simp add: funded_def)
  have k: "100 = receiverAddr example_env \<or> 100 = callerAddr example_env \<or>
           \<not> accepts example_env 100 \<or> reaction example_env 100 = inert"
    by (simp add: example_env_def)
  show ?thesis
    unfolding transferTo_unfold [OF le k]
    by (simp add: funded_def example_env_def Let_def emit_def)
qed

lemma funded_probe_first_self:
  "transferTo_probe_first example_env 7 100 40 funded =
     Inr (funded\<lparr>receiver := (receiver funded)\<lparr>balances := (\<lambda>_. 0)(7 := 60, 100 := 40)\<rparr>,
                 logs := logs funded @ [FundsReceived 100 0, BalanceUpdated 100 0,
                                        InternalTransferExecuted 7 100 40, BalanceUpdated 7 60,
                                        BalanceUpdated 100 40]\<rparr>)"
  by (simp add: transferTo_probe_first_def funded_def example_env_def Let_def emit_def
      call_empty_zero_self [of "\<lparr>receiverAddr = 100, callerAddr = 200, accepts = (\<lambda>a. a \<noteq> 66), reaction = (\<lambda>a. inert), acceptsStipend = (\<lambda>a. a \<noteq> 66)\<rparr>", simplified]
      checked_sub_def checked_add_def)


text \<open>The fixture \<open>funded\<close> is the deployment after account 7 deposited 100.\<close>

lemma funded_reached:
  "transact (receiveFunds example_env 7 100) deployed = (None, funded)"
  by (simp add: transact_def receiveFunds_def pay_def move_def credit_def checked_add_def
      emit_def Let_def funded_def deployed_def example_env_def ReceiverContract_constructor_def)
     (simp add: fun_eq_iff)

section \<open>Deposits keep the ledger covered\<close>

lemma run_deposit_cases:
  assumes "run_deposit en d w = Inr w'"
  obtains w0 v where "pay (depositor d) (receiverAddr en) v w = Inr w0"
    and "credit (depositor d) v w0 = Inr w'"
  using assms
  by (cases d) (auto simp: receiveFunds_def ReceiverContract_receive_def split: sum.splits if_splits)

lemma run_deposit_inv:
  assumes "depositor d \<noteq> receiverAddr en" and "ledgerSum w \<le> getBalance en w"
  shows "ledgerSum (snd (transact (run_deposit en d) w))
           \<le> getBalance en (snd (transact (run_deposit en d) w))"
proof (cases "run_deposit en d w")
  case (Inl e)
  then show ?thesis using assms(2) by (simp add: transact_def)
next
  case (Inr w')
  then obtain w0 v where p: "pay (depositor d) (receiverAddr en) v w = Inr w0"
    and c: "credit (depositor d) v w0 = Inr w'"
    by (rule run_deposit_cases)
  have "ledgerSum w0 = ledgerSum w" using pay_Inr(1) [OF p] by (simp add: ledgerSum_def)
  then have "ledgerSum w' = ledgerSum w + unat v" using credit_ledgerSum [OF c] by simp
  moreover have "getBalance en w' = getBalance en w + unat v"
    using pay_Inr(5) [OF p assms(1)] credit_Inr(1) [OF c] by (simp add: getBalance_def)
  ultimately show ?thesis using assms(2) Inr by (simp add: transact_def)
qed

lemma ledgerSum_constructor:
  "receiver w = ReceiverContract_constructor d \<Longrightarrow> ledgerSum w = 0"
  by (simp add: ledgerSum_def ReceiverContract_constructor_def)

lemma run_deposits_inv:
  "\<forall>d\<in>set ds. depositor d \<noteq> receiverAddr en \<Longrightarrow> ledgerSum w \<le> getBalance en w \<Longrightarrow>
   ledgerSum (run_deposits en ds w) \<le> getBalance en (run_deposits en ds w)"
  by (induction ds arbitrary: w) (simp_all add: run_deposit_inv)

text \<open>
  C1. Start from a freshly constructed \<open>ReceiverContract\<close> (every ledger balance 0,
  whatever the contract's address already holds) and run any sequence of deposits, each
  through \<open>receiveFunds()\<close> or through \<open>receive()\<close>, each committed or reverted as a
  whole. The depositors are accounts other than the contract itself, which is what a
  deposit sent to the contract is. Then the sum of all ledger balances is at most the
  native balance the contract holds. Every prefix of a sequence is a sequence, so the
  bound holds after each deposit.
\<close>

theorem deposits_ledgerSum_le_pool:
  assumes "receiver w0 = ReceiverContract_constructor d"
    and "\<forall>x\<in>set ds. depositor x \<noteq> receiverAddr en"
  shows "ledgerSum (run_deposits en ds w0) \<le> getBalance en (run_deposits en ds w0)"
  using run_deposits_inv [OF assms(2)] ledgerSum_constructor [OF assms(1)] by simp

theorem deposits_ledgerSum_le_pool_witness:
  "receiver deployed = ReceiverContract_constructor 1 \<and>
   depositor (ViaReceiveFunds 7 125) \<noteq> receiverAddr example_env \<and>
   depositor (ViaReceive 8 0) \<noteq> receiverAddr example_env \<and>
   depositor (ViaReceive 200 0) \<noteq> receiverAddr example_env \<and>
   ledgerSum (run_deposits example_env [ViaReceiveFunds 7 125, ViaReceive 8 0, ViaReceive 200 0] deployed)
     \<le> getBalance example_env
          (run_deposits example_env [ViaReceiveFunds 7 125, ViaReceive 8 0, ViaReceive 200 0] deployed)"
  using deposits_ledgerSum_le_pool
    [of deployed 1 "[ViaReceiveFunds 7 125, ViaReceive 8 0, ViaReceive 200 0]" example_env]
  by (simp add: deployed_def example_env_def)

section \<open>Internal transfer without the balance\<close>

text \<open>
  C4. When the sender's ledger balance is below the amount, \<open>transferTo\<close> fails with the
  reason "Insufficient balance" (the spec's InsufficientBalance) for every recipient, and
  the operation leaves the whole world, both balances included, as it was.
\<close>

theorem transferTo_insufficient:
  assumes "balances (receiver w) a < amt"
  shows "transferTo en a b amt w = Inl (Error ''Insufficient balance'') \<and>
         transact (transferTo en a b amt) w = (Some (Error ''Insufficient balance''), w)"
proof -
  from assms have "\<not> amt \<le> balances (receiver w) a" by simp
  then show ?thesis by (simp add: transferTo_def transact_def)
qed

theorem transferTo_insufficient_witness:
  "balances (receiver funded) 7 < 101 \<and>
   transferTo example_env 7 8 101 funded = Inl (Error ''Insufficient balance'') \<and>
   transact (transferTo example_env 7 8 101) funded = (Some (Error ''Insufficient balance''), funded)"
  using transferTo_insufficient [of funded 7 101 example_env 8]
  by (simp add: funded_def)

section \<open>Withdrawal\<close>

text \<open>The owner is written by the constructor and by no statement of either contract.\<close>

lemma constructor_owner: "owner (ReceiverContract_constructor d) = d"
  by (simp add: ReceiverContract_constructor_def)

lemma credit_owner: "credit a v w = Inr w' \<Longrightarrow> owner (receiver w') = owner (receiver w)"
  by (rule credit_Inr(3))

lemma pay_owner: "pay s d v w = Inr w' \<Longrightarrow> owner (receiver w') = owner (receiver w)"
  using pay_Inr(1) by simp

lemma receive_owner:
  "ReceiverContract_receive en a v w = Inr w' \<Longrightarrow> owner (receiver w') = owner (receiver w)"
  by (auto simp: ReceiverContract_receive_def split: sum.splits dest!: credit_owner pay_owner)

lemma receiveFunds_owner:
  "receiveFunds en a v w = Inr w' \<Longrightarrow> owner (receiver w') = owner (receiver w)"
  by (auto simp: receiveFunds_def split: sum.splits if_splits dest!: credit_owner pay_owner)

lemma withdraw_owner:
  "withdraw en a amt w = Inr w' \<Longrightarrow> owner (receiver w') = owner (receiver w)"
  by (auto simp: withdraw_def transfer_def move_def Let_def split: if_splits)

lemma callReceiverContract_owner:
  "callReceiverContract en a v w = Inr w' \<Longrightarrow> owner (receiver w') = owner (receiver w)"
  by (auto simp: callReceiverContract_def IReceiver_receiveFunds_def Let_def emit_def
      split: sum.splits if_splits dest!: receiveFunds_owner pay_owner)

text \<open>
  C7. A caller other than the stored owner gets the reason "Only owner can withdraw"
  (the spec's Unauthorized) for every amount, and the operation leaves the whole world
  as it was; so whenever \<open>withdraw\<close> succeeds, its caller is the owner, and the owner
  stays the same account.
\<close>

theorem withdraw_only_owner:
  "(msg_sender \<noteq> owner (receiver w) \<longrightarrow>
      withdraw en msg_sender amount w = Inl (Error ''Only owner can withdraw'') \<and>
      transact (withdraw en msg_sender amount) w = (Some (Error ''Only owner can withdraw''), w)) \<and>
   (\<forall>w'. withdraw en msg_sender amount w = Inr w' \<longrightarrow>
      msg_sender = owner (receiver w) \<and> owner (receiver w') = owner (receiver w))"
  by (auto simp add: withdraw_def transact_def transfer_def move_def Let_def split: if_splits)

theorem withdraw_only_owner_witness:
  "7 \<noteq> owner (receiver funded) \<and>
   withdraw example_env 7 40 funded = Inl (Error ''Only owner can withdraw'') \<and>
   transact (withdraw example_env 7 40) funded = (Some (Error ''Only owner can withdraw''), funded) \<and>
   withdraw example_env 1 40 funded = Inr (move 100 1 40 funded) \<and>
   1 = owner (receiver funded) \<and> owner (receiver (move 100 1 40 funded)) = owner (receiver funded)"
proof -
  have ok: "withdraw example_env 1 40 funded = Inr (move 100 1 40 funded)"
    by (simp add: funded_def example_env_def withdraw_def transfer_def)
  have no: "7 \<noteq> owner (receiver funded)" by (simp add: funded_def)
  from withdraw_only_owner [of 7 funded example_env 40]
    withdraw_only_owner [of 1 funded example_env 40] ok no
  show ?thesis by blast
qed

text \<open>
  C10. When the owner asks for more than the contract holds, \<open>transfer\<close> cannot be made:
  \<open>withdraw\<close> reverts and the operation leaves the whole world as it was. The failure is
  a revert without a reason, not one of the contract's \<open>require\<close> messages: \<open>withdraw\<close>
  has no guard on the pool.
\<close>

theorem withdraw_beyond_pool:
  assumes "msg_sender = owner (receiver w)" and "getBalance en w < unat amount"
  shows "withdraw en msg_sender amount w = Inl Revert \<and>
         transact (withdraw en msg_sender amount) w = (Some Revert, w)"
  using assms by (simp add: withdraw_def transfer_def transact_def getBalance_def)

theorem withdraw_beyond_pool_witness:
  "1 = owner (receiver funded) \<and> getBalance example_env funded < unat (101 :: uint256) \<and>
   withdraw example_env 1 101 funded = Inl Revert \<and>
   transact (withdraw example_env 1 101) funded = (Some Revert, funded)"
  using withdraw_beyond_pool [of 1 funded example_env 101]
  by (simp add: funded_def example_env_def getBalance_def)

section \<open>The receive path and \<open>receiveFunds\<close>\<close>

text \<open>
  C6. With no value, the two paths differ for every sender: \<open>receiveFunds\<close> fails with
  "No funds sent", while \<open>receive()\<close> has no such guard, succeeds, and emits
  \<open>FundsReceived(sender, 0)\<close> and \<open>BalanceUpdated(sender, balance)\<close>.
\<close>

theorem receive_zero_differs_from_receiveFunds:
  "receiveFunds en a 0 w = Inl (Error ''No funds sent'') \<and>
   ReceiverContract_receive en a 0 w =
     Inr (emit (BalanceUpdated a (balances (receiver w) a)) (emit (FundsReceived a 0) w))"
  by (simp add: receiveFunds_def ReceiverContract_receive_def pay_zero credit_zero)

text \<open>With a positive value the two paths are the same function.\<close>

lemma receive_positive_eq_receiveFunds:
  "0 < v \<Longrightarrow> ReceiverContract_receive en a v w = receiveFunds en a v w"
  by (simp add: receiveFunds_def ReceiverContract_receive_def split: sum.splits)

section \<open>Deposit through \<open>receiveFunds\<close>\<close>

text \<open>
  C2. For every sender, \<open>receiveFunds\<close> with value 0 fails with the reason
  "No funds sent" (the spec's InvalidAmount) and leaves the world as it was. With a
  value \<open>n > 0\<close> that the sender holds, sent by an account other than the contract
  itself, and with the two checked additions in range, it succeeds: the sender's ledger
  balance, \<open>totalReceived\<close> and the contract's native balance each grow by exactly \<open>n\<close>,
  no other ledger balance changes, and the log grows by \<open>FundsReceived(sender, n)\<close>
  followed by \<open>BalanceUpdated(sender, new balance)\<close>.
\<close>

theorem receiveFunds_deposit:
  "transact (receiveFunds en a 0) w = (Some (Error ''No funds sent''), w) \<and>
   (0 < n \<and> a \<noteq> receiverAddr en \<and> unat n \<le> eth w a \<and>
    unat (balances (receiver w) a) + unat n < 2 ^ 256 \<and>
    unat (totalReceived (receiver w)) + unat n < 2 ^ 256 \<longrightarrow>
    (\<exists>w'. transact (receiveFunds en a n) w = (None, w') \<and>
       unat (getUserBalance a w') = unat (getUserBalance a w) + unat n \<and>
       (\<forall>x. x \<noteq> a \<longrightarrow> getUserBalance x w' = getUserBalance x w) \<and>
       unat (totalReceived (receiver w')) = unat (totalReceived (receiver w)) + unat n \<and>
       getBalance en w' = getBalance en w + unat n \<and>
       logs w' = logs w @ [FundsReceived a n, BalanceUpdated a (getUserBalance a w')]))"
proof (intro conjI impI)
  show "transact (receiveFunds en a 0) w = (Some (Error ''No funds sent''), w)"
    by (simp add: transact_def receiveFunds_def pay_zero)
next
  assume h: "0 < n \<and> a \<noteq> receiverAddr en \<and> unat n \<le> eth w a \<and>
    unat (balances (receiver w) a) + unat n < 2 ^ 256 \<and>
    unat (totalReceived (receiver w)) + unat n < 2 ^ 256"
  then obtain w' where r: "receiveFunds en a n w = Inr w'"
    and c: "credit a n (move a (receiverAddr en) (unat n) w) = Inr w'"
    using receiveFunds_ok [of n w a en] by blast
  have "transact (receiveFunds en a n) w = (None, w')" using r by (simp add: transact_def)
  moreover have "unat (getUserBalance a w') = unat (getUserBalance a w) + unat n"
    using credit_Inr(5) [OF c] by (simp add: getUserBalance_def move_fields)
  moreover have "\<forall>x. x \<noteq> a \<longrightarrow> getUserBalance x w' = getUserBalance x w"
    using credit_Inr(4) [OF c] by (simp add: getUserBalance_def move_fields)
  moreover have "unat (totalReceived (receiver w')) = unat (totalReceived (receiver w)) + unat n"
    using credit_Inr(7) [OF c] by (simp add: move_fields)
  moreover have "getBalance en w' = getBalance en w + unat n"
    using credit_Inr(1) [OF c] h by (simp add: getBalance_def move_fields)
  moreover have "logs w' = logs w @ [FundsReceived a n, BalanceUpdated a (getUserBalance a w')]"
    using credit_Inr(4,8) [OF c] by (simp add: getUserBalance_def move_fields)
  ultimately show "\<exists>w'. transact (receiveFunds en a n) w = (None, w') \<and>
       unat (getUserBalance a w') = unat (getUserBalance a w) + unat n \<and>
       (\<forall>x. x \<noteq> a \<longrightarrow> getUserBalance x w' = getUserBalance x w) \<and>
       unat (totalReceived (receiver w')) = unat (totalReceived (receiver w)) + unat n \<and>
       getBalance en w' = getBalance en w + unat n \<and>
       logs w' = logs w @ [FundsReceived a n, BalanceUpdated a (getUserBalance a w')]"
    by blast
qed

theorem receiveFunds_deposit_witness:
  "0 < (125::uint256) \<and> 7 \<noteq> receiverAddr example_env \<and> unat (125::uint256) \<le> eth deployed 7 \<and>
   unat (balances (receiver deployed) 7) + unat (125::uint256) < 2 ^ 256 \<and>
   unat (totalReceived (receiver deployed)) + unat (125::uint256) < 2 ^ 256 \<and>
   (\<exists>w'. transact (receiveFunds example_env 7 125) deployed = (None, w') \<and>
       unat (getUserBalance 7 w') = unat (getUserBalance 7 deployed) + unat (125::uint256) \<and>
       unat (totalReceived (receiver w')) = unat (totalReceived (receiver deployed)) + unat (125::uint256) \<and>
       getBalance example_env w' = getBalance example_env deployed + unat (125::uint256) \<and>
       logs w' = logs deployed @ [FundsReceived 7 125, BalanceUpdated 7 (getUserBalance 7 w')])"
proof -
  have h: "0 < (125::uint256) \<and> 7 \<noteq> receiverAddr example_env \<and> unat (125::uint256) \<le> eth deployed 7 \<and>
   unat (balances (receiver deployed) 7) + unat (125::uint256) < 2 ^ 256 \<and>
   unat (totalReceived (receiver deployed)) + unat (125::uint256) < 2 ^ 256"
    by (simp add: example_env_def deployed_def ReceiverContract_constructor_def)
  from receiveFunds_deposit [of example_env 7 deployed 125] h show ?thesis by blast
qed

section \<open>Internal transfer with the balance\<close>





section \<open>The order of steps in \<open>transferTo\<close>\<close>

text \<open>
  C5. \<open>transferTo\<close> runs its steps in this order: the balance guard and the two storage
  writes, then the zero-value probe of the recipient, then the three events. The probe
  is made in the world the writes have produced, and the events are emitted in the
  world the probe returns. A probe that fails, at a recipient that refuses the call,
  ends the operation with the reason "Transfer failed" (the spec's TransferFailed) and
  the whole world, the two written balances included, is as it was before. That the
  probe comes after the writes is observable when the recipient is the contract itself:
  the \<open>BalanceUpdated\<close> event of the probe's \<open>receive()\<close> carries the recipient's balance
  with the amount already added.
\<close>

theorem transferTo_writes_probe_events:
  "transferTo en a b amt w =
     (case transferTo_writes a b amt w of
        Inl e \<Rightarrow> Inl e
      | Inr w2 \<Rightarrow>
          let (success, w3) = call_empty en (receiverAddr en) b 0 w2
          in if \<not> success then Inl (Error ''Transfer failed'')
             else Inr (transferTo_events a b amt w3)) \<and>
   (amt \<le> balances (receiver w) a \<and> unat (balances (receiver w) b) + unat amt < 2 ^ 256 \<and>
    b \<noteq> receiverAddr en \<and> b \<noteq> callerAddr en \<and> \<not> accepts en b \<longrightarrow>
      transact (transferTo en a b amt) w = (Some (Error ''Transfer failed''), w)) \<and>
   (amt \<le> balances (receiver w) a \<and> a \<noteq> receiverAddr en \<and>
    unat (balances (receiver w) (receiverAddr en)) + unat amt < 2 ^ 256 \<longrightarrow>
      emitted (transferTo en a (receiverAddr en) amt) w =
        Some [FundsReceived (receiverAddr en) 0,
              BalanceUpdated (receiverAddr en) (balances (receiver w) (receiverAddr en) + amt),
              InternalTransferExecuted a (receiverAddr en) amt,
              BalanceUpdated a (balances (receiver w) a - amt),
              BalanceUpdated (receiverAddr en) (balances (receiver w) (receiverAddr en) + amt)])"
proof (intro conjI impI)
  show "transferTo en a b amt w =
     (case transferTo_writes a b amt w of
        Inl e \<Rightarrow> Inl e
      | Inr w2 \<Rightarrow>
          let (success, w3) = call_empty en (receiverAddr en) b 0 w2
          in if \<not> success then Inl (Error ''Transfer failed'')
             else Inr (transferTo_events a b amt w3))"
    by (rule transferTo_order)
next
  assume h: "amt \<le> balances (receiver w) a \<and> unat (balances (receiver w) b) + unat amt < 2 ^ 256 \<and>
    b \<noteq> receiverAddr en \<and> b \<noteq> callerAddr en \<and> \<not> accepts en b"
  then have le: "amt \<le> balances (receiver w) a" by simp
  have "unat (((balances (receiver w))(a := balances (receiver w) a - amt)) b)
          \<le> unat (balances (receiver w) b)"
    using le by (simp add: unat_sub_ok)
  then have "unat (((balances (receiver w))(a := balances (receiver w) a - amt)) b) + unat amt < 2 ^ 256"
    using h by simp
  moreover have k: "b = receiverAddr en \<or> b = callerAddr en \<or> \<not> accepts en b \<or> reaction en b = inert"
    using h by simp
  ultimately have "transferTo en a b amt w = Inl (Error ''Transfer failed'')"
    unfolding transferTo_unfold [OF le k] using h by (simp add: Let_def)
  then show "transact (transferTo en a b amt) w = (Some (Error ''Transfer failed''), w)"
    by (simp add: transact_def)
next
  assume h: "amt \<le> balances (receiver w) a \<and> a \<noteq> receiverAddr en \<and>
    unat (balances (receiver w) (receiverAddr en)) + unat amt < 2 ^ 256"
  then have le: "amt \<le> balances (receiver w) a" by simp
  have k: "receiverAddr en = receiverAddr en \<or> receiverAddr en = callerAddr en \<or>
           \<not> accepts en (receiverAddr en) \<or> reaction en (receiverAddr en) = inert"
    by simp
  show "emitted (transferTo en a (receiverAddr en) amt) w =
        Some [FundsReceived (receiverAddr en) 0,
              BalanceUpdated (receiverAddr en) (balances (receiver w) (receiverAddr en) + amt),
              InternalTransferExecuted a (receiverAddr en) amt,
              BalanceUpdated a (balances (receiver w) a - amt),
              BalanceUpdated (receiverAddr en) (balances (receiver w) (receiverAddr en) + amt)]"
    unfolding emitted_def transferTo_unfold [OF le k] using h
    by (auto simp: Let_def emit_def)
qed

theorem transferTo_writes_probe_events_witness:
  "40 \<le> balances (receiver funded) 7 \<and>
   unat (balances (receiver funded) 66) + unat (40::uint256) < 2 ^ 256 \<and>
   66 \<noteq> receiverAddr example_env \<and> 66 \<noteq> callerAddr example_env \<and> \<not> accepts example_env 66 \<and>
   transact (transferTo example_env 7 66 40) funded = (Some (Error ''Transfer failed''), funded) \<and>
   7 \<noteq> receiverAddr example_env \<and>
   unat (balances (receiver funded) (receiverAddr example_env)) + unat (40::uint256) < 2 ^ 256 \<and>
   emitted (transferTo example_env 7 (receiverAddr example_env) 40) funded =
        Some [FundsReceived (receiverAddr example_env) 0,
              BalanceUpdated (receiverAddr example_env)
                (balances (receiver funded) (receiverAddr example_env) + 40),
              InternalTransferExecuted 7 (receiverAddr example_env) 40,
              BalanceUpdated 7 (balances (receiver funded) 7 - 40),
              BalanceUpdated (receiverAddr example_env)
                (balances (receiver funded) (receiverAddr example_env) + 40)]"
proof -
  have h: "40 \<le> balances (receiver funded) 7 \<and>
   unat (balances (receiver funded) 66) + unat (40::uint256) < 2 ^ 256 \<and>
   66 \<noteq> receiverAddr example_env \<and> 66 \<noteq> callerAddr example_env \<and> \<not> accepts example_env 66"
    by (simp add: funded_def example_env_def)
  have g: "7 \<noteq> receiverAddr example_env \<and>
   unat (balances (receiver funded) (receiverAddr example_env)) + unat (40::uint256) < 2 ^ 256"
    by (simp add: funded_def example_env_def)
  from transferTo_writes_probe_events [of example_env 7 66 40 funded] h g
  show ?thesis by blast
qed

text \<open>
  C5 as the specification states it, the probe before the balance writes, is a
  different function, \<open>transferTo_probe_first\<close>. Account 7 holds 100 and transfers 40 to
  \<open>ReceiverContract\<close>'s own address 100: the contract's probe reports the recipient's
  balance as 40, the value after the write, where the probe-first order reports 0.
\<close>

theorem transferTo_is_not_probe_first:
  "emitted (transferTo example_env 7 100 40) funded =
     Some [FundsReceived 100 0, BalanceUpdated 100 40, InternalTransferExecuted 7 100 40,
           BalanceUpdated 7 60, BalanceUpdated 100 40] \<and>
   emitted (transferTo_probe_first example_env 7 100 40) funded =
     Some [FundsReceived 100 0, BalanceUpdated 100 0, InternalTransferExecuted 7 100 40,
           BalanceUpdated 7 60, BalanceUpdated 100 40] \<and>
   transferTo example_env 7 100 40 funded \<noteq> transferTo_probe_first example_env 7 100 40 funded"
proof -
  have e1: "emitted (transferTo example_env 7 100 40) funded =
     Some [FundsReceived 100 0, BalanceUpdated 100 40, InternalTransferExecuted 7 100 40,
           BalanceUpdated 7 60, BalanceUpdated 100 40]"
    by (simp add: emitted_def funded_transfer_self)
  have e2: "emitted (transferTo_probe_first example_env 7 100 40) funded =
     Some [FundsReceived 100 0, BalanceUpdated 100 0, InternalTransferExecuted 7 100 40,
           BalanceUpdated 7 60, BalanceUpdated 100 40]"
    by (simp add: emitted_def funded_probe_first_self)
  have "transferTo example_env 7 100 40 funded \<noteq> transferTo_probe_first example_env 7 100 40 funded"
  proof
    assume "transferTo example_env 7 100 40 funded = transferTo_probe_first example_env 7 100 40 funded"
    then have "emitted (transferTo example_env 7 100 40) funded
                 = emitted (transferTo_probe_first example_env 7 100 40) funded"
      by (simp add: emitted_def)
    with e1 e2 show False by simp
  qed
  with e1 e2 show ?thesis by simp
qed

section \<open>\<open>ContractCaller.callReceiverContract\<close>\<close>

text \<open>
  C8. With value 0 \<open>callReceiverContract\<close> fails with the contract's own reason
  "Must send some ETH" (the spec's InvalidAmount), before anything is forwarded, and
  the world is as it was. With a value \<open>n > 0\<close> that the sender holds, a \<open>ContractCaller\<close>
  that was constructed with \<open>ReceiverContract\<close>'s address, and the checked additions in
  range, it succeeds: \<open>ReceiverContract\<close>'s native balance grows by \<open>n\<close>; the ledger
  balance of \<open>ContractCaller\<close>'s address grows by \<open>n\<close> and no other ledger balance
  changes, the original sender's included; \<open>totalTransfers\<close> grows by 1; and the log
  grows by the deposit's two events for \<open>ContractCaller\<close> and then
  \<open>ContractCallMade(sender, ReceiverContract's address, n)\<close>. When the forwarded call
  fails, the operation fails with the same error and the world, the counter included,
  is as it was.
\<close>

theorem callReceiverContract_forwards:
  "transact (callReceiverContract en s 0) w = (Some (Error ''Must send some ETH''), w) \<and>
   (0 < n \<and> receiverContract (caller w) = receiverAddr en \<and> receiverAddr en \<noteq> callerAddr en \<and>
    s \<noteq> receiverAddr en \<and> unat n \<le> eth w s \<and>
    unat (balances (receiver w) (callerAddr en)) + unat n < 2 ^ 256 \<and>
    unat (totalReceived (receiver w)) + unat n < 2 ^ 256 \<and>
    unat (totalTransfers (caller w)) + 1 < 2 ^ 256 \<longrightarrow>
    (\<exists>w'. transact (callReceiverContract en s n) w = (None, w') \<and>
       getBalance en w' = getBalance en w + unat n \<and>
       unat (getUserBalance (callerAddr en) w') = unat (getUserBalance (callerAddr en) w) + unat n \<and>
       (\<forall>x. x \<noteq> callerAddr en \<longrightarrow> getUserBalance x w' = getUserBalance x w) \<and>
       unat (totalTransfers (caller w')) = unat (totalTransfers (caller w)) + 1 \<and>
       logs w' = logs w @ [FundsReceived (callerAddr en) n,
                           BalanceUpdated (callerAddr en) (getUserBalance (callerAddr en) w'),
                           ContractCallMade s (receiverAddr en) n])) \<and>
   (\<forall>w0 e. 0 < n \<and> pay s (callerAddr en) n w = Inr w0 \<and>
      IReceiver_receiveFunds en (receiverContract (caller w0)) (callerAddr en) n w0 = Inl e \<longrightarrow>
      transact (callReceiverContract en s n) w = (Some e, w))"
proof (intro conjI impI allI)
  show "transact (callReceiverContract en s 0) w = (Some (Error ''Must send some ETH''), w)"
    by (simp add: transact_def callReceiverContract_def pay_zero)
next
  fix w0 e
  assume "0 < n \<and> pay s (callerAddr en) n w = Inr w0 \<and>
      IReceiver_receiveFunds en (receiverContract (caller w0)) (callerAddr en) n w0 = Inl e"
  then show "transact (callReceiverContract en s n) w = (Some e, w)"
    by (simp add: transact_def callReceiverContract_def)
next
  let ?R = "callerAddr en" and ?L = "receiverAddr en"
  assume h: "0 < n \<and> receiverContract (caller w) = ?L \<and> ?L \<noteq> ?R \<and>
    s \<noteq> ?L \<and> unat n \<le> eth w s \<and>
    unat (balances (receiver w) ?R) + unat n < 2 ^ 256 \<and>
    unat (totalReceived (receiver w)) + unat n < 2 ^ 256 \<and>
    unat (totalTransfers (caller w)) + 1 < 2 ^ 256"
  let ?w0 = "move s ?R (unat n) w"
  have p: "pay s ?R n w = Inr ?w0" using h by (simp add: pay_ok)
  have e0: "unat n \<le> eth ?w0 ?R" using h by (cases "s = ?R") (simp_all add: move_def Let_def)
  obtain w1 where r: "receiveFunds en ?R n ?w0 = Inr w1"
    and c: "credit ?R n (move ?R ?L (unat n) ?w0) = Inr w1"
    using receiveFunds_ok [of n ?w0 ?R en] h e0 by (auto simp: move_fields)
  let ?w2 = "w1\<lparr>caller := (caller w1)\<lparr>totalTransfers := totalTransfers (caller w1) + 1\<rparr>\<rparr>"
  let ?w' = "emit (ContractCallMade s ?L n) ?w2"
  have cw1: "caller w1 = caller w" using credit_Inr(2) [OF c] by (simp add: move_fields)
  have t: "checked_add (totalTransfers (caller w1)) 1 = Inr (totalTransfers (caller w1) + 1)"
    using h cw1 by (simp add: checked_add_ok)
  have res: "callReceiverContract en s n w = Inr ?w'"
    using h p r t cw1
    by (simp add: callReceiverContract_def IReceiver_receiveFunds_def move_fields Let_def)
  have "transact (callReceiverContract en s n) w = (None, ?w')"
    using res by (simp add: transact_def)
  moreover have "getBalance en ?w' = getBalance en w + unat n"
    using credit_Inr(1) [OF c] h
    by (cases "s = ?R") (auto simp: getBalance_def emit_def move_def Let_def)
  moreover have "unat (getUserBalance ?R ?w') = unat (getUserBalance ?R w) + unat n"
    using credit_Inr(5) [OF c] by (simp add: getUserBalance_def emit_def move_fields)
  moreover have "\<forall>x. x \<noteq> ?R \<longrightarrow> getUserBalance x ?w' = getUserBalance x w"
    using credit_Inr(4) [OF c] by (simp add: getUserBalance_def emit_def move_fields)
  moreover have "unat (totalTransfers (caller ?w')) = unat (totalTransfers (caller w)) + 1"
    using h cw1 unat_add_ok [of "totalTransfers (caller w)" 1] by (simp add: emit_def)
  moreover have "logs ?w' = logs w @ [FundsReceived ?R n,
                           BalanceUpdated ?R (getUserBalance ?R ?w'),
                           ContractCallMade s ?L n]"
    using credit_Inr(4,8) [OF c] by (simp add: getUserBalance_def emit_def move_fields)
  ultimately show "\<exists>w'. transact (callReceiverContract en s n) w = (None, w') \<and>
       getBalance en w' = getBalance en w + unat n \<and>
       unat (getUserBalance ?R w') = unat (getUserBalance ?R w) + unat n \<and>
       (\<forall>x. x \<noteq> ?R \<longrightarrow> getUserBalance x w' = getUserBalance x w) \<and>
       unat (totalTransfers (caller w')) = unat (totalTransfers (caller w)) + 1 \<and>
       logs w' = logs w @ [FundsReceived ?R n,
                           BalanceUpdated ?R (getUserBalance ?R w'),
                           ContractCallMade s ?L n]"
    by blast
qed

theorem callReceiverContract_forwards_witness:
  "0 < (50::uint256) \<and> receiverContract (caller deployed) = receiverAddr example_env \<and>
   receiverAddr example_env \<noteq> callerAddr example_env \<and> 7 \<noteq> receiverAddr example_env \<and>
   unat (50::uint256) \<le> eth deployed 7 \<and>
   unat (balances (receiver deployed) (callerAddr example_env)) + unat (50::uint256) < 2 ^ 256 \<and>
   unat (totalReceived (receiver deployed)) + unat (50::uint256) < 2 ^ 256 \<and>
   unat (totalTransfers (caller deployed)) + 1 < 2 ^ 256 \<and>
   (\<exists>w'. transact (callReceiverContract example_env 7 50) deployed = (None, w') \<and>
       getBalance example_env w' = getBalance example_env deployed + unat (50::uint256) \<and>
       unat (getUserBalance (callerAddr example_env) w')
         = unat (getUserBalance (callerAddr example_env) deployed) + unat (50::uint256) \<and>
       getUserBalance 7 w' = getUserBalance 7 deployed \<and>
       unat (totalTransfers (caller w')) = unat (totalTransfers (caller deployed)) + 1 \<and>
       logs w' = logs deployed @ [FundsReceived (callerAddr example_env) 50,
                           BalanceUpdated (callerAddr example_env) (getUserBalance (callerAddr example_env) w'),
                           ContractCallMade 7 (receiverAddr example_env) 50]) \<and>
   pay 7 (callerAddr example_env) 50 misdirected = Inr (move 7 200 50 misdirected) \<and>
   IReceiver_receiveFunds example_env (receiverContract (caller (move 7 200 50 misdirected)))
      (callerAddr example_env) 50 (move 7 200 50 misdirected) = Inl Revert \<and>
   transact (callReceiverContract example_env 7 50) misdirected = (Some Revert, misdirected)"
proof -
  have h: "0 < (50::uint256) \<and> receiverContract (caller deployed) = receiverAddr example_env \<and>
   receiverAddr example_env \<noteq> callerAddr example_env \<and> 7 \<noteq> receiverAddr example_env \<and>
   unat (50::uint256) \<le> eth deployed 7 \<and>
   unat (balances (receiver deployed) (callerAddr example_env)) + unat (50::uint256) < 2 ^ 256 \<and>
   unat (totalReceived (receiver deployed)) + unat (50::uint256) < 2 ^ 256 \<and>
   unat (totalTransfers (caller deployed)) + 1 < 2 ^ 256"
    by (simp add: example_env_def deployed_def ReceiverContract_constructor_def
        ContractCaller_constructor_def)
  have ne: "(7::address) \<noteq> callerAddr example_env" by (simp add: example_env_def)
  have p: "pay 7 (callerAddr example_env) 50 misdirected = Inr (move 7 200 50 misdirected)"
    by (simp add: pay_def misdirected_def deployed_def example_env_def)
  have f: "IReceiver_receiveFunds example_env (receiverContract (caller (move 7 200 50 misdirected)))
      (callerAddr example_env) 50 (move 7 200 50 misdirected) = Inl Revert"
    by (simp add: IReceiver_receiveFunds_def move_def Let_def misdirected_def
        ContractCaller_constructor_def example_env_def)
  from callReceiverContract_forwards [of example_env 7 deployed 50]
    callReceiverContract_forwards [of example_env 7 misdirected 50] h ne p f
  show ?thesis by (simp only: HOL.simp_thms) blast
qed

section \<open>\<open>transferWithValue\<close>\<close>





end
